theory Spec2Isabelle
  imports Main "HOL-Library.AList"
begin

section \<open>The values of the source language\<close>

subsection \<open>Errors\<close>

text \<open>
  What the source throws or logs: the \<^verbatim>\<open>Error\<close> thrown by \<^verbatim>\<open>assignSlot\<close> (it carries
  \<^verbatim>\<open>maxWorktrees\<close> in its message); the \<^verbatim>\<open>TypeError\<close> the runtime throws when a
  property of \<^verbatim>\<open>undefined\<close> is read or \<^verbatim>\<open>undefined\<close> is enumerated; and the three
  places where an operation logs an error or a warning and returns \<^verbatim>\<open>false\<close>.
\<close>

datatype error =
    SlotsExhausted int
  | TypeError
  | AlreadyExists string
  | WorktreeCreateFailed
  | DirtyWorkingTree

subsection \<open>Numbers\<close>

text \<open>
  A number of the source is an IEEE 754 double. The numbers of this program are
  integers, and an integer double is modelled by the mathematical integer it is. The
  result of an addition or a multiplication is the exact result rounded to the
  nearest double, ties to the even significand: \<open>toDouble\<close>. An integer of at most
  53 bits is a double; a longer one is rounded at the bit 53 places below its
  leading bit. (The overflow to \<^verbatim>\<open>Infinity\<close>, beyond \<open>2 ^ 1024\<close>, is not represented.)
\<close>

fun bitlen :: "nat \<Rightarrow> nat" where
  "bitlen n = (if n = 0 then 0 else Suc (bitlen (n div 2)))"

declare bitlen.simps [simp del]

definition roundNat :: "nat \<Rightarrow> nat" where
  "roundNat n =
     (let k = bitlen n in
      if k \<le> 53 then n
      else
        (let u = 2 ^ (k - 53);
             q = n div u;
             r = n mod u
         in if 2 * r < u then q * u
            else if u < 2 * r then (q + 1) * u
            else if even q then q * u
            else (q + 1) * u))"

definition toDouble :: "int \<Rightarrow> int" where
  "toDouble x = (if x < 0 then - int (roundNat (nat (- x))) else int (roundNat (nat x)))"

text \<open>
  \<^verbatim>\<open>String(n)\<close>, and a number inside a template string, for an integer below
  \<open>10 ^ 21\<close> in magnitude: the decimal digits, with a sign. (From \<open>10 ^ 21\<close> on the
  source language prints an exponent; the properties below that speak of the digits
  of a port assume the bound.)
\<close>

definition digit_char :: "nat \<Rightarrow> char" where
  "digit_char d = ''0123456789'' ! d"

fun string_of_nat :: "nat \<Rightarrow> string" where
  "string_of_nat n =
     (if n < 10 then [digit_char n] else string_of_nat (n div 10) @ [digit_char (n mod 10)])"

declare string_of_nat.simps [simp del]

definition numberToString :: "int \<Rightarrow> string" where
  "numberToString i =
     (if i < 0 then CHR ''-'' # string_of_nat (nat (- i)) else string_of_nat (nat i))"

text \<open>A string used as a condition is true when it is present and not empty.\<close>

definition truthy :: "string option \<Rightarrow> bool" where
  "truthy v = (case v of None \<Rightarrow> False | Some s \<Rightarrow> s \<noteq> [])"

text \<open>\<^verbatim>\<open>v || d\<close> on an optional string, and on an optional number (0 is false).\<close>

definition or_default :: "string option \<Rightarrow> string \<Rightarrow> string" where
  "or_default v d = (case v of None \<Rightarrow> d | Some s \<Rightarrow> if s = [] then d else s)"

definition or_default_num :: "int option \<Rightarrow> int \<Rightarrow> int" where
  "or_default_num v d = (case v of None \<Rightarrow> d | Some n \<Rightarrow> if n = 0 then d else n)"

subsection \<open>Objects\<close>

text \<open>
  An object used as a dictionary is the list of its own entries, in the order in
  which the language enumerates them: first the keys that are array indices (the
  decimal numerals below \<open>2 ^ 32 - 1\<close>, without a leading zero) in ascending order,
  then the other keys in the order in which they were added. \<open>obj_set\<close> is the
  assignment \<^verbatim>\<open>obj[key] = value\<close>: the value of a key that is there is replaced in
  place, a new key goes to its place in that order. \<^verbatim>\<open>delete obj[key]\<close> is
  \<open>AList.delete\<close>, \<^verbatim>\<open>Object.values\<close> is \<open>map snd\<close>, \<^verbatim>\<open>Object.entries\<close> is the list.
\<close>

definition digit_value :: "char \<Rightarrow> nat" where
  "digit_value c = length (takeWhile (\<lambda>d. d \<noteq> c) ''0123456789'')"

definition nat_of_digits :: "string \<Rightarrow> nat" where
  "nat_of_digits s = foldl (\<lambda>n c. 10 * n + digit_value c) 0 s"

definition array_index :: "string \<Rightarrow> nat option" where
  "array_index key =
     (case key of
        [] \<Rightarrow> None
      | c # cs \<Rightarrow>
          if list_all (\<lambda>d. d \<in> set ''0123456789'') key \<and> \<not> (cs \<noteq> [] \<and> c = CHR ''0'')
             \<and> nat_of_digits key < 4294967295
          then Some (nat_of_digits key)
          else None)"

fun insert_index :: "nat \<Rightarrow> string \<times> 'v \<Rightarrow> (string \<times> 'v) list \<Rightarrow> (string \<times> 'v) list" where
  "insert_index i e [] = [e]"
| "insert_index i e (p # ps) =
     (case array_index (fst p) of
        None \<Rightarrow> e # p # ps
      | Some j \<Rightarrow> if j < i then p # insert_index i e ps else e # p # ps)"

definition obj_set :: "string \<Rightarrow> 'v \<Rightarrow> (string \<times> 'v) list \<Rightarrow> (string \<times> 'v) list" where
  "obj_set key v obj =
     (if key \<in> set (map fst obj) then AList.update key v obj
      else case array_index key of
             None \<Rightarrow> obj @ [(key, v)]
           | Some i \<Rightarrow> insert_index i (key, v) obj)"

text \<open>
  An object made by an object literal or by \<^verbatim>\<open>JSON.parse\<close> inherits the members of
  \<^verbatim>\<open>Object.prototype\<close>, and \<^verbatim>\<open>obj[key]\<close> finds them when the object has no entry of
  its own under the key. These are their names.
\<close>

definition objectPrototypeNames :: "string list" where
  "objectPrototypeNames =
     [''constructor'', ''hasOwnProperty'', ''isPrototypeOf'', ''propertyIsEnumerable'',
      ''toLocaleString'', ''toString'', ''valueOf'', ''__defineGetter__'', ''__defineSetter__'',
      ''__lookupGetter__'', ''__lookupSetter__'', ''__proto__'']"


section \<open>Paths (node:path, on a POSIX system)\<close>

fun split_on :: "char \<Rightarrow> string \<Rightarrow> string list" where
  "split_on sep [] = [[]]"
| "split_on sep (c # cs) =
     (if c = sep then [] # split_on sep cs
      else case split_on sep cs of
             [] \<Rightarrow> [[c]]
           | s # ss \<Rightarrow> (c # s) # ss)"

fun join_with :: "string \<Rightarrow> string list \<Rightarrow> string" where
  "join_with sep [] = []"
| "join_with sep [x] = x"
| "join_with sep (x # y # ys) = x @ sep @ join_with sep (y # ys)"

text \<open>
  \<^verbatim>\<open>normalizeString\<close>: the segments are read from the left; an empty segment and
  \<^verbatim>\<open>.\<close> are dropped; \<^verbatim>\<open>..\<close> removes the segment before it, unless there is none or it
  is \<^verbatim>\<open>..\<close> itself, and then \<^verbatim>\<open>..\<close> is kept in a relative path and dropped in an
  absolute one.
\<close>

fun normalizeSegments :: "bool \<Rightarrow> string list \<Rightarrow> string list \<Rightarrow> string list" where
  "normalizeSegments allowAboveRoot res [] = res"
| "normalizeSegments allowAboveRoot res (seg # segs) =
     (if seg = [] \<or> seg = ''.'' then normalizeSegments allowAboveRoot res segs
      else if seg = ''..'' then
        (if res \<noteq> [] \<and> last res \<noteq> ''..''
         then normalizeSegments allowAboveRoot (butlast res) segs
         else if allowAboveRoot then normalizeSegments allowAboveRoot (res @ [''..'']) segs
         else normalizeSegments allowAboveRoot res segs)
      else normalizeSegments allowAboveRoot (res @ [seg]) segs)"

definition normalize :: "string \<Rightarrow> string" where
  "normalize path =
     (case path of
        [] \<Rightarrow> ''.''
      | c # cs \<Rightarrow>
          (let isAbsolute = (c = CHR ''/'');
               trailingSeparator = (last path = CHR ''/'');
               p = join_with ''/'' (normalizeSegments (\<not> isAbsolute) [] (split_on CHR ''/'' path))
           in if p = [] then (if isAbsolute then ''/'' else if trailingSeparator then ''./'' else ''.'')
              else (if isAbsolute then ''/'' else []) @ p @ (if trailingSeparator then ''/'' else [])))"

text \<open>\<^verbatim>\<open>path.join(...args)\<close>: the arguments that are not empty, joined and normalised.\<close>

definition join :: "string list \<Rightarrow> string" where
  "join args =
     (let joined = join_with ''/'' (filter (\<lambda>a. a \<noteq> []) args)
      in if joined = [] then ''.'' else normalize joined)"

text \<open>
  \<^verbatim>\<open>path.dirname\<close>: from the right, the separators at the end and the last segment are
  skipped; the result ends before the separator found next (the first character is
  not looked at).
\<close>

definition dirname :: "string \<Rightarrow> string" where
  "dirname path =
     (case path of
        [] \<Rightarrow> ''.''
      | c # cs \<Rightarrow>
          (let hasRoot = (c = CHR ''/'');
               r = dropWhile (\<lambda>x. x \<noteq> CHR ''/'') (dropWhile (\<lambda>x. x = CHR ''/'') (rev cs))
           in if r = [] then (if hasRoot then ''/'' else ''.'')
              else if hasRoot \<and> length r = 1 then ''//''
              else take (length r) path))"


section \<open>The port calculator (ports.ts)\<close>

definition calculateHostPort :: "int \<Rightarrow> int \<Rightarrow> int \<Rightarrow> int" where
  "calculateHostPort basePort slot offset = toDouble (basePort + toDouble (slot * offset))"

text \<open>
  \<^verbatim>\<open>Number.isSafeInteger\<close>: the integers every one of which is a double and is the only
  integer that rounds to it.
\<close>

definition isSafeInteger :: "int \<Rightarrow> bool" where
  "isSafeInteger x \<longleftrightarrow> \<bar>x\<bar> < 2 ^ 53"


section \<open>The service catalog (config.ts)\<close>

text \<open>
  The interfaces \<^verbatim>\<open>ServiceConfig\<close> and \<^verbatim>\<open>MonorepoConfig\<close>, as \<^verbatim>\<open>loadMonorepoConfig\<close>
  builds them: the services are the tables the TOML parser returns, unchecked, so
  every field but the name can be missing, the \<^verbatim>\<open>ports\<close> table too, which the
  interface declares as mandatory. A missing field is \<open>None\<close>. A table of the parser
  (\<^verbatim>\<open>ports\<close>, \<^verbatim>\<open>env\<close>, \<^verbatim>\<open>volumes\<close>, ...) is the list of its entries in enumeration
  order; it has no prototype, so a lookup in it is \<open>map_of\<close>. The nested objects
  \<^verbatim>\<open>project\<close>, \<^verbatim>\<open>ports\<close> and \<^verbatim>\<open>hooks\<close> are flattened into prefixed fields; the field
  \<^verbatim>\<open>kong_local\<close> is read by none of the functions below.
\<close>

record HealthcheckConfig =
  hc_test :: "string option"
  hc_path :: "string option"
  hc_interval :: "string option"
  hc_retries :: "int option"
  hc_start_period :: "string option"

record ServiceConfig =
  svc_name :: string
  svc_image :: "string option"
  svc_path :: "string option"
  svc_dockerfile :: "string option"
  svc_command :: "string option"
  svc_ports :: "(string \<times> int) list option"
  svc_env :: "(string \<times> string) list option"
  svc_healthcheck :: "HealthcheckConfig option"
  svc_depends_on :: "(string \<times> string) list option"
  svc_volumes :: "(string \<times> string) list option"
  svc_named_volumes :: "(string \<times> string) list option"

record MonorepoConfig =
  project_name :: string
  project_worktree_dir :: string
  ports_offset :: int
  ports_max_worktrees :: int
  services :: "ServiceConfig list"
  hooks_post_create :: "string list option"

record WorktreeConfig =
  wt_name :: string
  wt_branch :: string
  wt_baseBranch :: string
  wt_slot :: int
  wt_projectRoot :: string
  wt_worktreePath :: string
  wt_monorepoConfig :: MonorepoConfig


section \<open>The definition generator (compose.ts)\<close>

subsection \<open>The reference pattern\<close>

text \<open>
  The regular expression is \<^verbatim>\<open>/\{(\w+)\.(\w+)\.host\}/g\<close>. Without the unicode flag,
  \<^verbatim>\<open>\w\<close> is a letter of the ASCII alphabet, a digit or the underscore.
\<close>

definition is_word_char :: "char \<Rightarrow> bool" where
  "is_word_char c \<longleftrightarrow>
     c \<in> set (''abcdefghijklmnopqrstuvwxyz'' @ ''ABCDEFGHIJKLMNOPQRSTUVWXYZ''
              @ ''0123456789'' @ ''_'')"

text \<open>\<open>strip_prefix p xs\<close>: the text that follows the literal \<open>p\<close> at the start of \<open>xs\<close>.\<close>

fun strip_prefix :: "string \<Rightarrow> string \<Rightarrow> string option" where
  "strip_prefix [] ys = Some ys"
| "strip_prefix (x # xs) [] = None"
| "strip_prefix (x # xs) (y # ys) = (if x = y then strip_prefix xs ys else None)"

text \<open>
  A match of the expression at a given \<^verbatim>\<open>{\<close>, on the text \<open>cs\<close> that follows it: the
  two groups and the text after the match. A group \<^verbatim>\<open>\w+\<close> is greedy, and the character
  that must follow it (a dot) is not a word character, so the only length the matcher
  can settle on is the whole run of word characters: giving a character back leaves
  a word character where the dot must stand.
\<close>

definition match_ref :: "string \<Rightarrow> (string \<times> string \<times> string) option" where
  "match_ref cs =
     (let svcName = takeWhile is_word_char cs in
      if svcName = [] then None
      else case strip_prefix ''.'' (dropWhile is_word_char cs) of
        None \<Rightarrow> None
      | Some r \<Rightarrow>
          (let portName = takeWhile is_word_char r in
           if portName = [] then None
           else case strip_prefix ''.host}'' (dropWhile is_word_char r) of
             None \<Rightarrow> None
           | Some rest \<Rightarrow> Some (svcName, portName, rest)))"

lemma strip_prefix_length: "strip_prefix p xs = Some r \<Longrightarrow> length r \<le> length xs"
  by (induction p xs rule: strip_prefix.induct) (auto split: if_splits)

lemma match_ref_length:
  assumes "match_ref cs = Some (s, p, rest)"
  shows "length rest \<le> length cs"
proof -
  from assms obtain r where r: "strip_prefix ''.'' (dropWhile is_word_char cs) = Some r"
    and rest: "strip_prefix ''.host}'' (dropWhile is_word_char r) = Some rest"
    by (auto simp: match_ref_def Let_def split: if_splits option.splits)
  have "length rest \<le> length (dropWhile is_word_char r)"
    using rest by (rule strip_prefix_length)
  also have "\<dots> \<le> length r" by (rule length_dropWhile_le)
  also have "\<dots> \<le> length (dropWhile is_word_char cs)"
    using r by (rule strip_prefix_length)
  also have "\<dots> \<le> length cs" by (rule length_dropWhile_le)
  finally show ?thesis .
qed

text \<open>
  A piece of the result of a replacement is a text or the error its callback threw;
  \<open>then_append\<close> puts two pieces together, and the first error is the result.
\<close>

definition then_append :: "error + string \<Rightarrow> error + string \<Rightarrow> error + string" where
  "then_append a b =
     (case a of
        Inl e \<Rightarrow> Inl e
      | Inr x \<Rightarrow> (case b of Inl e \<Rightarrow> Inl e | Inr y \<Rightarrow> Inr (x @ y)))"

text \<open>
  \<^verbatim>\<open>value.replace(re, callback)\<close> with the global flag: the text is scanned from the
  left; at a match the callback's result replaces the matched text and the scan goes
  on after the match; elsewhere the character is copied. The callback \<open>f\<close> gets the
  matched text and the two groups; what it throws, the replacement throws.
\<close>

function replace_refs ::
  "(string \<Rightarrow> string \<Rightarrow> string \<Rightarrow> error + string) \<Rightarrow> string \<Rightarrow> error + string" where
  "replace_refs f [] = Inr []"
| "replace_refs f (c # cs) =
     (if c = CHR ''{'' then
        (case match_ref cs of
           Some (svcName, portName, rest) \<Rightarrow>
             then_append (f (''{'' @ svcName @ ''.'' @ portName @ ''.host}'') svcName portName)
               (replace_refs f rest)
         | None \<Rightarrow> then_append (Inr [c]) (replace_refs f cs))
      else then_append (Inr [c]) (replace_refs f cs))"
  by pat_completeness auto
termination
  by (relation "measure (\<lambda>(f, s). length s)") (auto dest: match_ref_length)

text \<open>
  \<^verbatim>\<open>config.services.find(s => s.name === svcName)\<close>, and the callback of
  \<^verbatim>\<open>generateCompose\<close>. In \<^verbatim>\<open>targetSvc?.ports[portName]\<close> the optional chain guards the
  service only: for a service that is found and has no \<^verbatim>\<open>ports\<close> table the index is
  applied to \<^verbatim>\<open>undefined\<close>, which throws.
\<close>

definition findService :: "MonorepoConfig \<Rightarrow> string \<Rightarrow> ServiceConfig option" where
  "findService config svcName = find (\<lambda>s. svc_name s = svcName) (services config)"

definition resolveRef ::
  "MonorepoConfig \<Rightarrow> int \<Rightarrow> string \<Rightarrow> string \<Rightarrow> string \<Rightarrow> error + string" where
  "resolveRef config slot match svcName portName =
     (case findService config svcName of
        None \<Rightarrow> Inr match
      | Some targetSvc \<Rightarrow>
          (case svc_ports targetSvc of
             None \<Rightarrow> Inl TypeError
           | Some ports \<Rightarrow>
               (case map_of ports portName of
                  Some basePort \<Rightarrow>
                    Inr (numberToString (calculateHostPort basePort slot (ports_offset config)))
                | None \<Rightarrow> Inr match)))"

text \<open>The resolution of one value, and the loop over \<^verbatim>\<open>Object.entries(service.env)\<close>.\<close>

definition resolveEnvValue :: "MonorepoConfig \<Rightarrow> int \<Rightarrow> string \<Rightarrow> error + string" where
  "resolveEnvValue config slot v = replace_refs (resolveRef config slot) v"

fun resolveEnv ::
  "MonorepoConfig \<Rightarrow> int \<Rightarrow> (string \<times> string) list \<Rightarrow> error + (string \<times> string) list" where
  "resolveEnv config slot [] = Inr []"
| "resolveEnv config slot ((key, v) # rest) =
     (case resolveEnvValue config slot v of
        Inl e \<Rightarrow> Inl e
      | Inr resolved \<Rightarrow>
          (case resolveEnv config slot rest of
             Inl e \<Rightarrow> Inl e
           | Inr env \<Rightarrow> Inr ((key, resolved) # env)))"

text \<open>
  The words of the properties below: the text of a reference to a port of a service;
  a name the expression's groups can match (one word character or more); a name
  without a brace.
\<close>

definition ref_text :: "string \<Rightarrow> string \<Rightarrow> string" where
  "ref_text svcName portName = ''{'' @ svcName @ ''.'' @ portName @ ''.host}''"

definition is_name :: "string \<Rightarrow> bool" where
  "is_name x \<longleftrightarrow> x \<noteq> [] \<and> list_all is_word_char x"

definition brace_free :: "string \<Rightarrow> bool" where
  "brace_free x \<longleftrightarrow> CHR ''{'' \<notin> set x \<and> CHR ''}'' \<notin> set x"

subsection \<open>The generated document\<close>

text \<open>
  The objects \<^verbatim>\<open>services\<close> and \<^verbatim>\<open>volumes\<close> are built by assignment (\<open>obj_set\<close>). The
  value \<^verbatim>\<open>{}\<close> of a volume declaration is \<open>()\<close>; the value of a network declaration is
  its driver; a build section is the pair of its context and its build file.
\<close>

record ComposeHealthcheck =
  h_test :: "string list"
  h_interval :: string
  h_retries :: int
  h_start_period :: string

record ComposeService =
  c_container_name :: string
  c_image :: "string option"
  c_build :: "(string \<times> string) option"
  c_command :: "string option"
  c_ports :: "string list option"
  c_environment :: "(string \<times> string) list option"
  c_volumes :: "string list option"
  c_healthcheck :: "ComposeHealthcheck option"
  c_depends_on :: "(string \<times> string) list option"
  c_networks :: "string list"

record Compose =
  doc_version :: string
  doc_services :: "(string \<times> ComposeService) list"
  doc_networks :: "(string \<times> string) list"
  doc_volumes :: "(string \<times> unit) list option"

record ComposeOptions =
  opt_worktreeName :: string
  opt_slot :: int
  opt_config :: MonorepoConfig

definition qualifiedName :: "string \<Rightarrow> int \<Rightarrow> string \<Rightarrow> string" where
  "qualifiedName worktreeName slot volumeName =
     (if slot = 0 then volumeName else ''wt-'' @ worktreeName @ ''-'' @ volumeName)"

text \<open>
  The loop over \<^verbatim>\<open>Object.entries(service.named_volumes)\<close>: it pushes onto the service's
  volume list and assigns into the document's \<^verbatim>\<open>volumes\<close> object.
\<close>

fun namedVolumesLoop ::
  "string \<Rightarrow> int \<Rightarrow> (string \<times> string) list \<Rightarrow> string list \<times> (string \<times> unit) list
     \<Rightarrow> string list \<times> (string \<times> unit) list" where
  "namedVolumesLoop worktreeName slot [] acc = acc"
| "namedVolumesLoop worktreeName slot ((volumeName, mountPath) # rest) (svcVolumes, volumes) =
     namedVolumesLoop worktreeName slot rest
       (svcVolumes @ [qualifiedName worktreeName slot volumeName @ '':'' @ mountPath],
        obj_set (qualifiedName worktreeName slot volumeName) () volumes)"

text \<open>
  The volume section of the loop body: the bind mounts, then the named volumes; the
  service's volume list, and the document's \<^verbatim>\<open>volumes\<close> object after it.
\<close>

definition serviceVolumes ::
  "string \<Rightarrow> int \<Rightarrow> ServiceConfig \<Rightarrow> (string \<times> unit) list
     \<Rightarrow> string list \<times> (string \<times> unit) list" where
  "serviceVolumes worktreeName slot service volumes =
     (let bindMounts = (case svc_volumes service of
                          None \<Rightarrow> []
                        | Some vs \<Rightarrow> map (\<lambda>(hostPath, containerPath). ''./'' @ hostPath @ '':'' @ containerPath) vs)
      in case svc_named_volumes service of
           None \<Rightarrow> (bindMounts, volumes)
         | Some nvs \<Rightarrow> namedVolumesLoop worktreeName slot nvs (bindMounts, volumes))"

text \<open>
  The healthcheck: an HTTP probe when the path is set and the service has a port
  \<^verbatim>\<open>main\<close> (\<^verbatim>\<open>service.ports?.main\<close>: no port when there is no table), else a shell probe
  when the test is set, else none; both with the same defaults.
\<close>

definition probe :: "HealthcheckConfig \<Rightarrow> string list \<Rightarrow> ComposeHealthcheck" where
  "probe hc test =
     \<lparr>h_test = test,
      h_interval = or_default (hc_interval hc) ''10s'',
      h_retries = or_default_num (hc_retries hc) 5,
      h_start_period = or_default (hc_start_period hc) ''30s''\<rparr>"

definition mainPort :: "ServiceConfig \<Rightarrow> int option" where
  "mainPort service = (case svc_ports service of None \<Rightarrow> None | Some ports \<Rightarrow> map_of ports ''main'')"

definition composeHealthcheck :: "ServiceConfig \<Rightarrow> ComposeHealthcheck option" where
  "composeHealthcheck service =
     (case svc_healthcheck service of
        None \<Rightarrow> None
      | Some hc \<Rightarrow>
          (let shellProbe = (case hc_test hc of
                               None \<Rightarrow> None
                             | Some t \<Rightarrow> if t = [] then None else Some (probe hc [''CMD-SHELL'', t]))
           in case (hc_path hc, mainPort service) of
                (Some path, Some port) \<Rightarrow>
                  if path \<noteq> []
                  then Some (probe hc [''CMD'', ''curl'', ''-f'',
                               ''http://localhost:'' @ numberToString port @ path])
                  else shellProbe
              | _ \<Rightarrow> shellProbe))"

text \<open>
  The body of the loop over \<^verbatim>\<open>config.services\<close>: the service's entry, and the
  document's \<^verbatim>\<open>volumes\<close> object after it; or the error thrown while the environment is
  resolved, the one step of the body that can throw.
\<close>

definition serviceEnvironment ::
  "MonorepoConfig \<Rightarrow> int \<Rightarrow> ServiceConfig \<Rightarrow> error + (string \<times> string) list option" where
  "serviceEnvironment config slot service =
     (case svc_env service of
        None \<Rightarrow> Inr None
      | Some e \<Rightarrow> (case resolveEnv config slot e of Inl err \<Rightarrow> Inl err | Inr env \<Rightarrow> Inr (Some env)))"

definition composeService ::
  "MonorepoConfig \<Rightarrow> string \<Rightarrow> int \<Rightarrow> ServiceConfig \<Rightarrow> (string \<times> unit) list
     \<Rightarrow> error + ComposeService \<times> (string \<times> unit) list" where
  "composeService config worktreeName slot service volumes =
     (let offset = ports_offset config;
          isMain = (slot = 0);
          prefix = (if isMain then project_name config else ''wt-'' @ worktreeName);
          networkName = prefix
      in case serviceEnvironment config slot service of
           Inl err \<Rightarrow> Inl err
         | Inr environment \<Rightarrow>
             (let (svcVolumes, volumes') = serviceVolumes worktreeName slot service volumes
              in Inr (\<lparr>c_container_name = prefix @ ''-'' @ svc_name service,
                       c_image = (if truthy (svc_image service) then svc_image service else None),
                       c_build = (if truthy (svc_image service) then None
                                  else case svc_path service of
                                         None \<Rightarrow> None
                                       | Some path \<Rightarrow>
                                           if path = [] then None
                                           else Some (''./'' @ path,
                                                      or_default (svc_dockerfile service) ''Dockerfile'')),
                       c_command = (if truthy (svc_command service) then svc_command service else None),
                       c_ports = (case svc_ports service of
                                    None \<Rightarrow> None
                                  | Some ports \<Rightarrow>
                                      if ports \<noteq> []
                                      then Some (map (\<lambda>(portName, basePort).
                                             numberToString (calculateHostPort basePort slot offset)
                                               @ '':'' @ numberToString basePort) ports)
                                      else None),
                       c_environment = environment,
                       c_volumes = (if svcVolumes \<noteq> [] then Some svcVolumes else None),
                       c_healthcheck = composeHealthcheck service,
                       c_depends_on = svc_depends_on service,
                       c_networks = [networkName]\<rparr>,
                      volumes')))"

fun servicesLoop ::
  "MonorepoConfig \<Rightarrow> string \<Rightarrow> int \<Rightarrow> ServiceConfig list
     \<Rightarrow> (string \<times> ComposeService) list \<times> (string \<times> unit) list
     \<Rightarrow> error + (string \<times> ComposeService) list \<times> (string \<times> unit) list" where
  "servicesLoop config worktreeName slot [] acc = Inr acc"
| "servicesLoop config worktreeName slot (service # rest) (svcs, volumes) =
     (case composeService config worktreeName slot service volumes of
        Inl err \<Rightarrow> Inl err
      | Inr (svc, volumes') \<Rightarrow>
          servicesLoop config worktreeName slot rest
            (obj_set (svc_name service) svc svcs, volumes'))"

definition generateCompose :: "ComposeOptions \<Rightarrow> error + Compose" where
  "generateCompose options =
     (let worktreeName = opt_worktreeName options;
          slot = opt_slot options;
          config = opt_config options;
          prefix = (if slot = 0 then project_name config else ''wt-'' @ worktreeName);
          networkName = prefix
      in case servicesLoop config worktreeName slot (services config) ([], []) of
           Inl err \<Rightarrow> Inl err
         | Inr (svcs, volumes) \<Rightarrow>
             Inr \<lparr>doc_version = ''3.8'',
                  doc_services = svcs,
                  doc_networks = [(networkName, ''bridge'')],
                  doc_volumes = (if volumes \<noteq> [] then Some volumes else None)\<rparr>)"


definition generated_env :: "string \<Rightarrow> string \<Rightarrow> Compose \<Rightarrow> string option" where
  "generated_env svcName key doc =
     (case map_of (doc_services doc) svcName of
        None \<Rightarrow> None
      | Some entry \<Rightarrow> (case c_environment entry of None \<Rightarrow> None | Some env \<Rightarrow> map_of env key))"


section \<open>The slot registry (ports.ts)\<close>

text \<open>
  A \<^verbatim>\<open>SlotMap\<close> is the object \<^verbatim>\<open>{ [worktreeName: string]: number }\<close> that
  \<^verbatim>\<open>JSON.parse\<close> makes of the registry file: the list of its entries, with the members
  of \<^verbatim>\<open>Object.prototype\<close> behind them. (A file that holds JSON of another shape, which
  \<^verbatim>\<open>saveSlots\<close> never writes, is not represented.)

  The part of the outside world the operations read and write is a record:
  \<^item> \<open>slot_files\<close>: for each path, the slot map a \<^verbatim>\<open>.slots.json\<close> file there parses to;
    \<open>None\<close> when the file is absent or does not parse (\<^verbatim>\<open>loadSlots\<close> answers \<^verbatim>\<open>{}\<close>
    in both cases);
  \<^item> \<open>paths\<close>: the files and directories \<^verbatim>\<open>existsSync\<close> finds;
  \<^item> \<open>uncommitted\<close>: the checkouts where \<^verbatim>\<open>git status --porcelain\<close> prints something;
  \<^item> \<open>git_worktrees\<close>: the paths \<^verbatim>\<open>git worktree list --porcelain\<close> prints, in order;
  \<^item> \<open>git_add_fails\<close>: the paths at which \<^verbatim>\<open>git worktree add\<close> fails;
  \<^item> \<open>git_tracked\<close>: the files of a fresh checkout, relative to it;
  \<^item> \<open>git_ignored\<close>: the files \<^verbatim>\<open>git status\<close> does not report when they are written;
  \<^item> \<open>hook_dirties\<close>: the hook commands that leave uncommitted changes in the checkout
    they run in (a hook is an arbitrary command: nothing else of its effect is
    represented).
\<close>

type_synonym SlotMap = "(string \<times> int) list"

record world =
  slot_files :: "string \<rightharpoonup> SlotMap"
  paths :: "string set"
  uncommitted :: "string set"
  git_worktrees :: "string list"
  git_add_fails :: "string set"
  git_tracked :: "string set"
  git_ignored :: "string set"
  hook_dirties :: "string set"

text \<open>
  What \<^verbatim>\<open>slots[worktreeName]\<close> can be when it is not \<^verbatim>\<open>undefined\<close>: the number of the
  object's own entry, or else the member of \<^verbatim>\<open>Object.prototype\<close> of that name (a
  function; under \<^verbatim>\<open>__proto__\<close> the prototype itself). \<open>None\<close> is \<^verbatim>\<open>undefined\<close>.
\<close>

datatype js_value = Number int | Inherited string

definition getProperty :: "SlotMap \<Rightarrow> string \<Rightarrow> js_value option" where
  "getProperty slots key =
     (case map_of slots key of
        Some n \<Rightarrow> Some (Number n)
      | None \<Rightarrow> if key \<in> set objectPrototypeNames then Some (Inherited key) else None)"

definition SLOTS_FILENAME :: string where
  "SLOTS_FILENAME = ''.slots.json''"

definition getSlotsFilePath :: "string \<Rightarrow> string \<Rightarrow> string" where
  "getSlotsFilePath projectRoot worktreeDir = join [projectRoot, worktreeDir, SLOTS_FILENAME]"

definition loadSlots :: "world \<Rightarrow> string \<Rightarrow> string \<Rightarrow> SlotMap" where
  "loadSlots w projectRoot worktreeDir =
     (case slot_files w (getSlotsFilePath projectRoot worktreeDir) of
        None \<Rightarrow> []
      | Some slots \<Rightarrow> slots)"

definition saveSlots :: "world \<Rightarrow> string \<Rightarrow> string \<Rightarrow> SlotMap \<Rightarrow> world" where
  "saveSlots w projectRoot worktreeDir slots =
     (let dir = join [projectRoot, worktreeDir];
          w1 = (if dir \<notin> paths w then w\<lparr>paths := insert dir (paths w)\<rparr> else w)
      in w1\<lparr>slot_files := (slot_files w1)(getSlotsFilePath projectRoot worktreeDir \<mapsto> slots)\<rparr>)"

text \<open>
  The loop \<^verbatim>\<open>for (let i = 1; i <= maxWorktrees; i++) if (!usedSlots.has(i)) ...\<close>, from
  the counter \<open>i\<close> on: the first counter value that is not used, or \<open>None\<close> when the
  loop runs to its end.
\<close>

function scanSlots :: "int set \<Rightarrow> int \<Rightarrow> int \<Rightarrow> int option" where
  "scanSlots usedSlots i maxWorktrees =
     (if i \<le> maxWorktrees
      then (if i \<notin> usedSlots then Some i else scanSlots usedSlots (i + 1) maxWorktrees)
      else None)"
  by pat_completeness auto
termination
  by (relation "measure (\<lambda>(usedSlots, i, maxWorktrees). nat (maxWorktrees + 1 - i))") auto

declare scanSlots.simps [simp del]

text \<open>
  \<^verbatim>\<open>assignSlot\<close> returns what it finds under the name, or the slot it assigns, or
  throws; the world it leaves is returned in every case. The test
  \<^verbatim>\<open>slots[worktreeName] !== undefined\<close> is a property lookup, so it also succeeds on an
  inherited member, and the function then returns that member, whatever the return
  type it declares.
\<close>

definition assignSlot :: "world \<Rightarrow> string \<Rightarrow> string \<Rightarrow> string \<Rightarrow> int \<Rightarrow> (error + js_value) \<times> world" where
  "assignSlot w projectRoot worktreeDir worktreeName maxWorktrees =
     (let slots = loadSlots w projectRoot worktreeDir in
      case getProperty slots worktreeName of
        Some v \<Rightarrow> (Inr v, w)
      | None \<Rightarrow>
          (let usedSlots = set (map snd slots) in
           case scanSlots usedSlots 1 maxWorktrees of
             Some i \<Rightarrow>
               (Inr (Number i), saveSlots w projectRoot worktreeDir (obj_set worktreeName i slots))
           | None \<Rightarrow> (Inl (SlotsExhausted maxWorktrees), w)))"

definition releaseSlot :: "world \<Rightarrow> string \<Rightarrow> string \<Rightarrow> string \<Rightarrow> world" where
  "releaseSlot w projectRoot worktreeDir worktreeName =
     saveSlots w projectRoot worktreeDir
       (AList.delete worktreeName (loadSlots w projectRoot worktreeDir))"

text \<open>\<^verbatim>\<open>slots[worktreeName] ?? null\<close>; \<open>None\<close> is \<^verbatim>\<open>null\<close>.\<close>

definition getSlot :: "world \<Rightarrow> string \<Rightarrow> string \<Rightarrow> string \<Rightarrow> js_value option" where
  "getSlot w projectRoot worktreeDir worktreeName =
     getProperty (loadSlots w projectRoot worktreeDir) worktreeName"


section \<open>The lifecycle operations (git.ts, operations.ts)\<close>

subsection \<open>The checkout engine and the file system, by their effect on the world\<close>

text \<open>
  \<^verbatim>\<open>removeWorktree\<close> of git.ts runs \<^verbatim>\<open>git worktree remove --force\<close> and
  \<^verbatim>\<open>git worktree prune\<close> with errors silenced, then deletes the directory if it is
  still there: afterwards the path and what is under it are gone and git no longer
  lists it. \<^verbatim>\<open>createWorktree\<close> of git.ts runs \<^verbatim>\<open>git worktree add\<close>, whose failure it
  throws. A file written into a checkout shows in its status unless git ignores it.
\<close>

definition startsWith :: "string \<Rightarrow> string \<Rightarrow> bool" where
  "startsWith s pre \<longleftrightarrow> take (length pre) s = pre"

definition isUnder :: "string \<Rightarrow> string \<Rightarrow> bool" where
  "isUnder dir p \<longleftrightarrow> p = dir \<or> startsWith p (dir @ ''/'')"

definition gitRemoveWorktree :: "world \<Rightarrow> string \<Rightarrow> world" where
  "gitRemoveWorktree w worktreePath =
     w\<lparr>paths := paths w - {p. isUnder worktreePath p},
       uncommitted := uncommitted w - {worktreePath},
       git_worktrees := removeAll worktreePath (git_worktrees w)\<rparr>"

definition gitCreateWorktree :: "world \<Rightarrow> string \<Rightarrow> (error + unit) \<times> world" where
  "gitCreateWorktree w worktreePath =
     (if worktreePath \<in> git_add_fails w then (Inl WorktreeCreateFailed, w)
      else (Inr (), w\<lparr>paths := insert worktreePath (paths w)
                               \<union> (\<lambda>f. join [worktreePath, f]) ` git_tracked w,
                      git_worktrees := git_worktrees w @ [worktreePath]\<rparr>))"

definition writeFile :: "world \<Rightarrow> string \<Rightarrow> string \<Rightarrow> world" where
  "writeFile w worktreePath filePath =
     w\<lparr>paths := insert filePath (paths w),
       uncommitted := (if filePath \<in> git_ignored w then uncommitted w
                       else insert worktreePath (uncommitted w))\<rparr>"

definition getComposeFilename :: "string \<Rightarrow> string" where
  "getComposeFilename worktreeName =
     (if worktreeName = [] then ''docker-compose.yml''
      else ''docker-compose.wt-'' @ worktreeName @ ''.yml'')"

text \<open>
  \<^verbatim>\<open>runPostCreateHooks\<close> runs the commands of \<^verbatim>\<open>hooks.post_create\<close> in the checkout; a
  command that fails is a warning.
\<close>

definition runPostCreateHooks :: "world \<Rightarrow> WorktreeConfig \<Rightarrow> world" where
  "runPostCreateHooks w config =
     (case hooks_post_create (wt_monorepoConfig config) of
        None \<Rightarrow> w
      | Some hooks \<Rightarrow>
          if set hooks \<inter> hook_dirties w = {} then w
          else w\<lparr>uncommitted := insert (wt_worktreePath config) (uncommitted w)\<rparr>)"

subsection \<open>createWorktree\<close>

record CreateWorktreeOptions =
  create_force :: bool
  create_skipHooks :: bool

text \<open>
  The function returns a boolean; here \<open>Inr ()\<close> is \<^verbatim>\<open>true\<close> and \<open>Inl e\<close> is \<^verbatim>\<open>false\<close>
  with the error that was logged; \<open>Inl TypeError\<close> is the exception that leaves the
  function when \<^verbatim>\<open>getServicePorts\<close> enumerates the \<^verbatim>\<open>ports\<close> of a service that has
  none. Past that call every service has a \<^verbatim>\<open>ports\<close> table, so the generator does
  not throw and the generated file is written. Fetching from the remote and git's
  safe.directory are outside the world modelled here.
\<close>

definition createWorktree :: "world \<Rightarrow> WorktreeConfig \<Rightarrow> CreateWorktreeOptions \<Rightarrow> (error + unit) \<times> world" where
  "createWorktree w config options =
     (let force = create_force options;
          skipHooks = create_skipHooks options;
          name = wt_name config;
          projectRoot = wt_projectRoot config;
          worktreePath = wt_worktreePath config;
          monorepoConfig = wt_monorepoConfig config
      in case assignSlot w projectRoot (project_worktree_dir monorepoConfig) name
                (ports_max_worktrees monorepoConfig) of
           (Inl e, w1) \<Rightarrow> (Inl e, w1)
         | (Inr slot, w1) \<Rightarrow>
             if \<not> list_all (\<lambda>service. svc_ports service \<noteq> None) (services monorepoConfig)
             then (Inl TypeError, w1)
             else if worktreePath \<in> paths w1 \<and> \<not> force
             then (Inl (AlreadyExists worktreePath),
                   releaseSlot w1 projectRoot (project_worktree_dir monorepoConfig) name)
             else
               (let w2 = (if worktreePath \<in> paths w1 then gitRemoveWorktree w1 worktreePath else w1);
                    worktreesDir = dirname worktreePath;
                    w3 = (if worktreesDir \<notin> paths w2
                          then w2\<lparr>paths := insert worktreesDir (paths w2)\<rparr> else w2)
                in case gitCreateWorktree w3 worktreePath of
                     (Inl e, w4) \<Rightarrow>
                       (Inl e, releaseSlot w4 projectRoot (project_worktree_dir monorepoConfig) name)
                   | (Inr u, w4) \<Rightarrow>
                       (let envLocalSrc = join [projectRoot, ''.env.local''];
                            envLocalDst = join [worktreePath, ''.env.local''];
                            w5 = (if envLocalSrc \<in> paths w4 \<and> envLocalDst \<notin> paths w4
                                  then writeFile w4 worktreePath envLocalDst else w4);
                            composePath = join [worktreePath, getComposeFilename name];
                            w6 = writeFile w5 worktreePath composePath;
                            w7 = (if \<not> skipHooks then runPostCreateHooks w6 config else w6)
                        in (Inr (), w7))))"

subsection \<open>removeWorktree and cleanupAll\<close>

record RemoveWorktreeOptions =
  rm_deleteBranch :: bool
  rm_deleteRemote :: bool
  rm_removeVolumes :: bool
  rm_force :: bool

text \<open>
  \<^verbatim>\<open>findProjectRoot()\<close> and \<^verbatim>\<open>loadMonorepoConfig(projectRoot)\<close> read the process's
  directory and the configuration file; their results are the parameters
  \<open>projectRoot\<close> and \<open>config\<close>. Stopping the runtime and deleting the branch are
  best effort and touch nothing of the world modelled here.
\<close>

definition removeWorktree ::
  "world \<Rightarrow> string \<Rightarrow> MonorepoConfig \<Rightarrow> string \<Rightarrow> RemoveWorktreeOptions \<Rightarrow> (error + unit) \<times> world" where
  "removeWorktree w projectRoot config name options =
     (let worktreesDir = join [projectRoot, project_worktree_dir config];
          worktreePath = join [worktreesDir, name]
      in if worktreePath \<notin> paths w then (Inr (), w)
         else if \<not> rm_force options \<and> worktreePath \<in> uncommitted w then (Inl DirtyWorkingTree, w)
         else (Inr (), releaseSlot (gitRemoveWorktree w worktreePath)
                         projectRoot (project_worktree_dir config) name))"

text \<open>
  \<^verbatim>\<open>p.replace(/\\/g, '/').toLowerCase()\<close>, on the letters of the ASCII alphabet.
\<close>

definition toLowerCase_char :: "char \<Rightarrow> char" where
  "toLowerCase_char c =
     (case map_of (zip ''ABCDEFGHIJKLMNOPQRSTUVWXYZ'' ''abcdefghijklmnopqrstuvwxyz'') c of
        None \<Rightarrow> c
      | Some l \<Rightarrow> l)"

definition normalizePath :: "string \<Rightarrow> string" where
  "normalizePath p = map (\<lambda>c. toLowerCase_char (if c = CHR 0x5C then CHR ''/'' else c)) p"

text \<open>\<^verbatim>\<open>getWorktreeName\<close>: the last part of the path split at slashes and backslashes.\<close>

definition getWorktreeName :: "string \<Rightarrow> string" where
  "getWorktreeName worktreePath =
     rev (takeWhile (\<lambda>c. c \<noteq> CHR ''/'' \<and> c \<noteq> CHR 0x5C) (rev worktreePath))"

text \<open>
  The loop of \<^verbatim>\<open>cleanupAll\<close> over the worktrees git lists, with the counter
  \<^verbatim>\<open>removed\<close>; the result of \<^verbatim>\<open>removeWorktree\<close> is dropped, as in the source. The
  function returns the count it prints.
\<close>

fun cleanupLoop ::
  "string \<Rightarrow> MonorepoConfig \<Rightarrow> bool \<Rightarrow> bool \<Rightarrow> string list \<Rightarrow> world \<Rightarrow> int \<Rightarrow> int \<times> world" where
  "cleanupLoop projectRoot config force removeVolumes [] w removed = (removed, w)"
| "cleanupLoop projectRoot config force removeVolumes (wt # rest) w removed =
     (let normalizedProjectRoot = normalizePath projectRoot;
          normalizedWorktreesDir = normalizePath (join [projectRoot, project_worktree_dir config]);
          normalizedWtPath = normalizePath wt
      in if normalizedWtPath = normalizedProjectRoot
         then cleanupLoop projectRoot config force removeVolumes rest w removed
         else if startsWith normalizedWtPath normalizedWorktreesDir
         then (case removeWorktree w projectRoot config (getWorktreeName wt)
                      \<lparr>rm_deleteBranch = False, rm_deleteRemote = False,
                       rm_removeVolumes = removeVolumes, rm_force = force\<rparr> of
                 (result, w') \<Rightarrow>
                   cleanupLoop projectRoot config force removeVolumes rest w' (removed + 1))
         else cleanupLoop projectRoot config force removeVolumes rest w removed)"

definition cleanupAll :: "world \<Rightarrow> string \<Rightarrow> MonorepoConfig \<Rightarrow> bool \<Rightarrow> bool \<Rightarrow> int \<times> world" where
  "cleanupAll w projectRoot config force removeVolumes =
     cleanupLoop projectRoot config force removeVolumes (git_worktrees w) w 0"


section \<open>Example inputs\<close>

text \<open>A project at \<^verbatim>\<open>/p\<close> with the default storage directory and port policy.\<close>

definition example_world :: world where
  "example_world =
     \<lparr>slot_files = [''/p/.worktrees/.slots.json'' \<mapsto> [(''a'', 1), (''c'', 3)]],
      paths = {''/p'', ''/p/.worktrees'', ''/p/.worktrees/a'', ''/p/.worktrees/c''},
      uncommitted = {''/p/.worktrees/a''},
      git_worktrees = [''/p'', ''/p/.worktrees/a'', ''/p/.worktrees/c''],
      git_add_fails = {}, git_tracked = {}, git_ignored = {}, hook_dirties = {}\<rparr>"

definition full_world :: world where
  "full_world =
     \<lparr>slot_files = [''/p/.worktrees/.slots.json'' \<mapsto> [(''a'', 1), (''c'', 2)]],
      paths = {''/p'', ''/p/.worktrees'', ''/p/.worktrees/a'', ''/p/.worktrees/c''},
      uncommitted = {},
      git_worktrees = [''/p'', ''/p/.worktrees/a'', ''/p/.worktrees/c''],
      git_add_fails = {}, git_tracked = {}, git_ignored = {}, hook_dirties = {}\<rparr>"

text \<open>
  A catalog of four services. Two of them mount the named volume \<^verbatim>\<open>data\<close>; one has a
  hyphen in its name and one a brace; the third refers to the main port of each of
  the others.
\<close>

definition api_service :: ServiceConfig where
  "api_service =
     \<lparr>svc_name = ''api'', svc_image = None, svc_path = Some ''services/api'',
      svc_dockerfile = None, svc_command = None, svc_ports = Some [(''main'', 3000)],
      svc_env = None, svc_healthcheck = None, svc_depends_on = None, svc_volumes = None,
      svc_named_volumes = Some [(''data'', ''/var/lib/data'')]\<rparr>"

definition core_api_service :: ServiceConfig where
  "core_api_service =
     \<lparr>svc_name = ''core-api'', svc_image = Some ''core:latest'', svc_path = None,
      svc_dockerfile = None, svc_command = None, svc_ports = Some [(''main'', 8080)],
      svc_env = None, svc_healthcheck = None, svc_depends_on = None, svc_volumes = None,
      svc_named_volumes = None\<rparr>"

definition web_env :: "(string \<times> string) list" where
  "web_env =
     [(''API_URL'', ''http://localhost:{api.main.host}/v1?alt={api.main.host}''),
      (''CORE_URL'', ''http://localhost:{core-api.main.host}/''),
      (''X_URL'', ''{x{api.main.host}'')]"

definition web_service :: ServiceConfig where
  "web_service =
     \<lparr>svc_name = ''web'', svc_image = None, svc_path = Some ''services/web'',
      svc_dockerfile = None, svc_command = None, svc_ports = Some [(''main'', 5173)],
      svc_env = Some web_env,
      svc_healthcheck = None, svc_depends_on = Some [(''api'', ''service_started'')],
      svc_volumes = None,
      svc_named_volumes = Some [(''data'', ''/srv/data''), (''cache'', ''/srv/cache'')]\<rparr>"

definition brace_service :: ServiceConfig where
  "brace_service =
     \<lparr>svc_name = ''x{api'', svc_image = Some ''x:latest'', svc_path = None,
      svc_dockerfile = None, svc_command = None, svc_ports = Some [(''main'', 9000)],
      svc_env = None, svc_healthcheck = None, svc_depends_on = None, svc_volumes = None,
      svc_named_volumes = None\<rparr>"

definition example_config :: MonorepoConfig where
  "example_config =
     \<lparr>project_name = ''project'', project_worktree_dir = ''.worktrees'',
      ports_offset = 1000, ports_max_worktrees = 5,
      services = [api_service, core_api_service, web_service, brace_service],
      hooks_post_create = None\<rparr>"

text \<open>The environment \<^verbatim>\<open>foo\<close> in slot 1.\<close>

definition example_options :: ComposeOptions where
  "example_options = \<lparr>opt_worktreeName = ''foo'', opt_slot = 1, opt_config = example_config\<rparr>"

text \<open>
  A catalog of two services: a database that is given no \<^verbatim>\<open>ports\<close> table (it is
  reached inside the network only), and an application that refers to a port of
  the database.
\<close>

definition db_service :: ServiceConfig where
  "db_service =
     \<lparr>svc_name = ''db'', svc_image = Some ''postgres:16'', svc_path = None,
      svc_dockerfile = None, svc_command = None, svc_ports = None,
      svc_env = None, svc_healthcheck = None, svc_depends_on = None, svc_volumes = None,
      svc_named_volumes = None\<rparr>"

definition app_service :: ServiceConfig where
  "app_service =
     \<lparr>svc_name = ''app'', svc_image = None, svc_path = Some ''services/app'',
      svc_dockerfile = None, svc_command = None, svc_ports = Some [(''main'', 3000)],
      svc_env = Some [(''DB_URL'', ''postgres://localhost:{db.main.host}/app'')],
      svc_healthcheck = None, svc_depends_on = None, svc_volumes = None,
      svc_named_volumes = None\<rparr>"

definition portless_config :: MonorepoConfig where
  "portless_config =
     \<lparr>project_name = ''project'', project_worktree_dir = ''.worktrees'',
      ports_offset = 1000, ports_max_worktrees = 5,
      services = [db_service, app_service],
      hooks_post_create = None\<rparr>"

definition portless_options :: ComposeOptions where
  "portless_options = \<lparr>opt_worktreeName = ''foo'', opt_slot = 1, opt_config = portless_config\<rparr>"

text \<open>A request to create the worktree \<^verbatim>\<open>a\<close>, which exists and holds slot 1, without force.\<close>

definition a_config :: WorktreeConfig where
  "a_config =
     \<lparr>wt_name = ''a'', wt_branch = ''worktree/a-20240101'', wt_baseBranch = ''main'', wt_slot = 0,
      wt_projectRoot = ''/p'', wt_worktreePath = ''/p/.worktrees/a'',
      wt_monorepoConfig = example_config\<rparr>"

definition no_force :: CreateWorktreeOptions where
  "no_force = \<lparr>create_force = False, create_skipHooks = False\<rparr>"


section \<open>Properties of the port calculator\<close>





lemmas number_eval =
  calculateHostPort_def toDouble_def roundNat_def bitlen.simps isSafeInteger_def Let_def





section \<open>Properties of the slot registry\<close>

lemma scanSlots_Some:
  assumes "scanSlots U i m = Some k"
  shows "i \<le> k \<and> k \<le> m \<and> k \<notin> U \<and> (\<forall>j. i \<le> j \<and> j < k \<longrightarrow> j \<in> U)"
  using assms
proof (induction U i m rule: scanSlots.induct)
  case (1 U i m)
  show ?case
  proof (cases "i \<le> m \<and> i \<in> U")
    case True
    with "1.prems" have rec: "scanSlots U (i + 1) m = Some k"
      by (simp add: scanSlots.simps [of U i m])
    from "1.IH" [OF _ _ rec] True
    have ih: "i + 1 \<le> k" "k \<le> m" "k \<notin> U" "\<forall>j. i + 1 \<le> j \<and> j < k \<longrightarrow> j \<in> U"
      by simp_all
    have "j \<in> U" if "i \<le> j" "j < k" for j
    proof (cases "j = i")
      case True
      with \<open>i \<le> m \<and> i \<in> U\<close> show ?thesis by simp
    next
      case False
      with that have "i + 1 \<le> j" by simp
      with ih(4) that show ?thesis by simp
    qed
    with ih show ?thesis by simp
  next
    case False
    with "1.prems" show ?thesis
      by (auto simp: scanSlots.simps [of U i m] split: if_splits)
  qed
qed

lemma scanSlots_None:
  "scanSlots U i m = None \<Longrightarrow> i \<le> j \<Longrightarrow> j \<le> m \<Longrightarrow> j \<in> U"
proof (induction U i m rule: scanSlots.induct)
  case (1 U i m)
  from "1.prems" have im: "i \<le> m" by simp
  with "1.prems" have iU: "i \<in> U" and rec: "scanSlots U (i + 1) m = None"
    by (auto simp: scanSlots.simps [of U i m] split: if_splits)
  show ?case
  proof (cases "j = i")
    case True
    with iU show ?thesis by simp
  next
    case False
    with "1.prems" have "i + 1 \<le> j" by simp
    from "1.IH" [OF im _ rec this "1.prems"(3)] iU show ?thesis by simp
  qed
qed


lemma map_of_insert_index:
  "key \<notin> fst ` set obj \<Longrightarrow> map_of (insert_index i (key, v) obj) = (map_of obj)(key \<mapsto> v)"
proof (induction obj)
  case Nil
  show ?case by simp
next
  case (Cons p ps)
  then have "key \<noteq> fst p" "key \<notin> fst ` set ps" by auto
  with Cons.IH show ?case
    by (cases p) (auto simp: fun_upd_twist split: option.splits)
qed

lemma map_of_append_fresh:
  "key \<notin> fst ` set obj \<Longrightarrow> map_of (obj @ [(key, v)]) = (map_of obj)(key \<mapsto> v)"
  by (induction obj) (auto simp: fun_upd_twist)

lemma map_of_obj_set: "map_of (obj_set key v obj) = (map_of obj)(key \<mapsto> v)"
  by (auto simp: obj_set_def update_conv' map_of_insert_index map_of_append_fresh
        simp del: map_of_append split: option.splits)




lemma delete_absent: "key \<notin> fst ` set obj \<Longrightarrow> AList.delete key obj = obj"
  by (induction obj) auto

lemma delete_insert_index:
  "key \<notin> fst ` set obj \<Longrightarrow> AList.delete key (insert_index i (key, v) obj) = obj"
proof (induction obj)
  case Nil
  show ?case by simp
next
  case (Cons p ps)
  then have "key \<noteq> fst p" "key \<notin> fst ` set ps" by auto
  with Cons.IH show ?case
    by (cases p) (auto simp: delete_absent split: option.splits)
qed

lemma delete_obj_set_fresh:
  "key \<notin> fst ` set obj \<Longrightarrow> AList.delete key (obj_set key v obj) = obj"
proof (cases "array_index key")
  case None
  assume "key \<notin> fst ` set obj"
  then have "AList.delete key (obj @ [(key, v)]) = obj"
    by (induction obj) auto
  with None \<open>key \<notin> fst ` set obj\<close> show ?thesis by (simp add: obj_set_def)
next
  case (Some i)
  assume "key \<notin> fst ` set obj"
  with Some show ?thesis by (simp add: obj_set_def delete_insert_index)
qed

lemma obj_set_plain_key:
  "key \<notin> fst ` set obj \<Longrightarrow> array_index key = None \<Longrightarrow> obj_set key v obj = obj @ [(key, v)]"
  by (simp add: obj_set_def)

lemma loadSlots_saveSlots [simp]:
  "loadSlots (saveSlots w r d slots) r d = slots"
  by (simp add: loadSlots_def saveSlots_def Let_def)

lemma slot_files_saveSlots [simp]:
  "slot_files (saveSlots w r d slots) (getSlotsFilePath r d) = Some slots"
  by (simp add: saveSlots_def Let_def)

lemmas path_eval =
  join_def normalize_def dirname_def Let_def

lemmas slot_eval =
  assignSlot_def releaseSlot_def getSlot_def getProperty_def loadSlots_def saveSlots_def
  getSlotsFilePath_def SLOTS_FILENAME_def scanSlots.simps objectPrototypeNames_def
  obj_set_def array_index_def path_eval

text \<open>
  For a name that is no member of \<^verbatim>\<open>Object.prototype\<close> and has no entry in the
  registry, \<^verbatim>\<open>assignSlot\<close> scans 1, 2, ... up to \<^verbatim>\<open>maxWorktrees\<close> and returns the first
  number no entry uses: the slot lies in the range, no entry has it, every smaller
  number of the range is in use, and the file then holds the old entries and the
  new one. The only other outcome is the error, and then every number of the range
  is in use.
\<close>

lemma assignSlot_own_name_first_unused:
  assumes "getSlot w r d n = None"
  shows "case assignSlot w r d n mx of
           (Inr v, w') \<Rightarrow>
              (\<exists>i. v = Number i \<and> 1 \<le> i \<and> i \<le> mx \<and> i \<notin> set (map snd (loadSlots w r d))
                 \<and> (\<forall>j. 1 \<le> j \<and> j < i \<longrightarrow> j \<in> set (map snd (loadSlots w r d)))
                 \<and> map_of (loadSlots w' r d) = (map_of (loadSlots w r d))(n \<mapsto> i))
              \<and> getSlot w' r d n = Some v
         | (Inl e, w') \<Rightarrow>
              e = SlotsExhausted mx \<and> w' = w
              \<and> (\<forall>j. 1 \<le> j \<and> j \<le> mx \<longrightarrow> j \<in> set (map snd (loadSlots w r d)))"
proof (cases "scanSlots (set (map snd (loadSlots w r d))) 1 mx")
  case None
  then have "\<forall>j. 1 \<le> j \<and> j \<le> mx \<longrightarrow> j \<in> set (map snd (loadSlots w r d))"
    by (blast intro: scanSlots_None)
  with None assms show ?thesis
    by (simp add: assignSlot_def getSlot_def)
next
  case (Some i)
  with scanSlots_Some [OF Some] assms show ?thesis
    by (simp add: assignSlot_def getSlot_def getProperty_def map_of_obj_set)
qed

text \<open>
  When every slot of 1..\<^verbatim>\<open>maxWorktrees\<close> is held by an entry of the registry,
  \<^verbatim>\<open>assignSlot\<close> for a name that is no member of \<^verbatim>\<open>Object.prototype\<close> and has no
  entry throws the exhaustion error and leaves the world as it was.
\<close>

lemma assignSlot_own_name_exhausted:
  assumes "getSlot w r d n = None"
    and "\<forall>i. 1 \<le> i \<and> i \<le> mx \<longrightarrow> i \<in> set (map snd (loadSlots w r d))"
  shows "assignSlot w r d n mx = (Inl (SlotsExhausted mx), w)"
proof (cases "scanSlots (set (map snd (loadSlots w r d))) 1 mx")
  case None
  with assms show ?thesis by (simp add: assignSlot_def getSlot_def)
next
  case (Some i)
  from scanSlots_Some [OF Some] assms(2) show ?thesis by blast
qed

text \<open>
  Claim C1: for a name without an entry, \<^verbatim>\<open>assignSlot\<close> returns the first unused slot
  and persists the assignment. The code does otherwise for a name that
  \<^verbatim>\<open>Object.prototype\<close> has a member for. The registry holds \<^verbatim>\<open>a\<close> in slot 1 and \<^verbatim>\<open>c\<close>
  in slot 3, so the name \<^verbatim>\<open>constructor\<close> has no entry and the first unused slot of
  1..5 is 2. The call for \<^verbatim>\<open>constructor\<close> returns the inherited member, not 2, and
  leaves the world as it was: nothing is persisted. (The call for the name \<^verbatim>\<open>b\<close>
  returns 2.)
\<close>

theorem assignSlot_inherited_name_not_assigned:
  "loadSlots example_world ''/p'' ''.worktrees'' = [(''a'', 1), (''c'', 3)]
   \<and> map_of [(''a'', 1::int), (''c'', 3)] ''constructor'' = None
   \<and> scanSlots {1, 3} 1 5 = Some 2
   \<and> fst (assignSlot example_world ''/p'' ''.worktrees'' ''b'' 5) = Inr (Number 2)
   \<and> assignSlot example_world ''/p'' ''.worktrees'' ''constructor'' 5
       = (Inr (Inherited ''constructor''), example_world)"
  by (simp add: example_world_def slot_eval)

text \<open>
  Claim C5. \<^verbatim>\<open>assignSlot\<close> is idempotent: whatever a call returns and leaves behind, a
  second call for the same name (with no release in between) returns the same and
  leaves the world, the registry file included, as the first call left it.
\<close>

theorem assignSlot_idempotent:
  assumes "assignSlot w r d n mx = (res, w')"
  shows "assignSlot w' r d n mx = (res, w')"
  using assms
  by (auto simp: assignSlot_def Let_def getProperty_def map_of_obj_set split: option.splits if_splits)

theorem assignSlot_idempotent_witness:
  "(\<exists>w'. assignSlot example_world ''/p'' ''.worktrees'' ''b'' 5 = (Inr (Number 2), w')
         \<and> assignSlot w' ''/p'' ''.worktrees'' ''b'' 5 = (Inr (Number 2), w'))"
proof -
  obtain w' where first: "assignSlot example_world ''/p'' ''.worktrees'' ''b'' 5 = (Inr (Number 2), w')"
    by (simp add: example_world_def slot_eval)
  from assignSlot_idempotent [OF first] first show ?thesis by blast
qed

text \<open>
  Claim C6: when every slot of 1..\<^verbatim>\<open>maxWorktrees\<close> is held, \<^verbatim>\<open>assignSlot\<close> for a name
  without an entry throws the exhaustion error. The code does otherwise for a name
  that \<^verbatim>\<open>Object.prototype\<close> has a member for. The limit is 2 and the registry holds
  \<^verbatim>\<open>a\<close> in slot 1 and \<^verbatim>\<open>c\<close> in slot 2, so no slot is free, and the call for the name
  \<^verbatim>\<open>b\<close> throws the error. The name \<^verbatim>\<open>toString\<close> has no entry either, and the call for
  it throws nothing: it returns the inherited member.
\<close>

theorem assignSlot_inherited_name_not_exhausted:
  "loadSlots full_world ''/p'' ''.worktrees'' = [(''a'', 1), (''c'', 2)]
   \<and> map_of [(''a'', 1::int), (''c'', 2)] ''toString'' = None
   \<and> scanSlots {1, 2} 1 2 = None
   \<and> assignSlot full_world ''/p'' ''.worktrees'' ''b'' 2 = (Inl (SlotsExhausted 2), full_world)
   \<and> assignSlot full_world ''/p'' ''.worktrees'' ''toString'' 2
       = (Inr (Inherited ''toString''), full_world)"
  by (simp add: full_world_def slot_eval)

section \<open>Properties of the reference substitution\<close>

lemma not_word_chars [simp]:
  "\<not> is_word_char CHR ''{''" "\<not> is_word_char CHR ''}''" "\<not> is_word_char CHR ''.''"
  by (simp_all add: is_word_char_def)

lemma is_name_no_special:
  assumes "is_name x"
  shows "CHR ''{'' \<notin> set x" "CHR ''}'' \<notin> set x" "CHR ''.'' \<notin> set x"
  using assms by (auto simp: is_name_def list_all_iff)

lemma strip_prefix_Some_iff: "strip_prefix p xs = Some r \<longleftrightarrow> xs = p @ r"
  by (induction p xs rule: strip_prefix.induct) auto

lemma strip_prefix_append [simp]: "strip_prefix p (p @ r) = Some r"
  by (simp add: strip_prefix_Some_iff)

lemma strip_prefix_extend:
  "c \<notin> set p \<Longrightarrow> strip_prefix p (xs @ c # t) = map_option (\<lambda>r. r @ c # t) (strip_prefix p xs)"
proof (induction p arbitrary: xs)
  case Nil
  then show ?case by simp
next
  case (Cons a p)
  then show ?case by (cases xs) auto
qed

lemma takeWhile_word_name:
  "is_name s \<Longrightarrow> \<not> is_word_char c \<Longrightarrow> takeWhile is_word_char (s @ c # t) = s"
  by (simp add: is_name_def list_all_iff takeWhile_tail)

lemma dropWhile_word_name:
  "is_name s \<Longrightarrow> \<not> is_word_char c \<Longrightarrow> dropWhile is_word_char (s @ c # t) = c # t"
  by (simp add: is_name_def list_all_iff dropWhile_append3)

lemma match_ref_complete:
  assumes "is_name s" "is_name p"
  shows "match_ref (s @ ''.'' @ p @ ''.host}'' @ rest) = Some (s, p, rest)"
proof -
  have s: "takeWhile is_word_char (s @ ''.'' @ p @ ''.host}'' @ rest) = s"
    "dropWhile is_word_char (s @ ''.'' @ p @ ''.host}'' @ rest) = ''.'' @ p @ ''.host}'' @ rest"
    using assms(1) by (simp_all add: takeWhile_word_name dropWhile_word_name)
  have p: "takeWhile is_word_char (p @ ''.host}'' @ rest) = p"
    "dropWhile is_word_char (p @ ''.host}'' @ rest) = ''.host}'' @ rest"
    using assms(2) by (simp_all add: takeWhile_word_name dropWhile_word_name)
  have sp: "strip_prefix ''.'' (''.'' @ p @ ''.host}'' @ rest) = Some (p @ ''.host}'' @ rest)"
    by (rule strip_prefix_append)
  have sh: "strip_prefix ''.host}'' (''.host}'' @ rest) = Some rest"
    by (rule strip_prefix_append)
  from assms have ne: "s \<noteq> []" "p \<noteq> []" by (simp_all add: is_name_def)
  show ?thesis
    unfolding match_ref_def Let_def s sp option.case p sh using ne by simp
qed

lemma match_ref_sound:
  assumes "match_ref cs = Some (s, p, rest)"
  shows "cs = s @ ''.'' @ p @ ''.host}'' @ rest \<and> is_name s \<and> is_name p"
proof -
  from assms obtain r where s: "s = takeWhile is_word_char cs" "s \<noteq> []"
    and r: "strip_prefix ''.'' (dropWhile is_word_char cs) = Some r"
    and p: "p = takeWhile is_word_char r" "p \<noteq> []"
    and rest: "strip_prefix ''.host}'' (dropWhile is_word_char r) = Some rest"
    by (auto simp: match_ref_def Let_def split: if_splits option.splits)
  from r have "dropWhile is_word_char cs = ''.'' @ r"
    by (simp only: strip_prefix_Some_iff)
  then have cs: "cs = s @ ''.'' @ r"
    unfolding s by (metis takeWhile_dropWhile_id)
  from rest have "dropWhile is_word_char r = ''.host}'' @ rest"
    by (simp only: strip_prefix_Some_iff)
  then have "r = p @ ''.host}'' @ rest"
    unfolding p by (metis takeWhile_dropWhile_id)
  with cs have "cs = s @ ''.'' @ p @ ''.host}'' @ rest" by simp
  moreover have "is_name s" "is_name p"
    using s p by (auto simp: is_name_def list_all_iff dest: set_takeWhileD)
  ultimately show ?thesis by simp
qed

text \<open>
  The matcher agrees with the expression read as a specification: at a given brace
  there is a match exactly when the text after it is a word, a dot, a word and
  \<^verbatim>\<open>.host}\<close>, and then the two words are the groups.
\<close>

lemma match_ref_iff:
  "match_ref cs = Some (s, p, rest)
     \<longleftrightarrow> cs = s @ ''.'' @ p @ ''.host}'' @ rest \<and> is_name s \<and> is_name p"
  using match_ref_sound [of cs s p rest] match_ref_complete [of s p rest] by blast

lemma match_ref_extend:
  "match_ref (cs @ CHR ''{'' # t)
     = map_option (\<lambda>(s, p, rest). (s, p, rest @ CHR ''{'' # t)) (match_ref cs)"
proof -
  have tw: "takeWhile is_word_char (xs @ CHR ''{'' # t) = takeWhile is_word_char xs" for xs
    by (simp add: takeWhile_tail)
  have dw: "dropWhile is_word_char (xs @ CHR ''{'' # t) = dropWhile is_word_char xs @ CHR ''{'' # t" for xs
    by (simp add: dropWhile_append3)
  have sp1: "strip_prefix ''.'' (xs @ CHR ''{'' # t) = map_option (\<lambda>r. r @ CHR ''{'' # t) (strip_prefix ''.'' xs)" for xs
    by (rule strip_prefix_extend) simp
  have sp2: "strip_prefix ''.host}'' (xs @ CHR ''{'' # t) = map_option (\<lambda>r. r @ CHR ''{'' # t) (strip_prefix ''.host}'' xs)" for xs
    by (rule strip_prefix_extend) simp
  show ?thesis
    unfolding match_ref_def Let_def tw dw sp1 sp2
    by (auto simp: tw dw sp2 split: option.splits)
qed

lemma then_append_Inr [simp]: "then_append (Inr x) (Inr y) = Inr (x @ y)"
  by (simp add: then_append_def)

lemma then_append_Inl [simp]: "then_append (Inl e) b = Inl e"
  by (simp add: then_append_def)

lemma then_append_Inr_Inl [simp]: "then_append (Inr x) (Inl e) = Inl e"
  by (simp add: then_append_def)

lemma then_append_Nil [simp]: "then_append (Inr []) b = b"
  by (cases b) (simp_all add: then_append_def)

lemma then_append_assoc:
  "then_append (then_append a b) c = then_append a (then_append b c)"
  by (cases a; cases b; cases c) (simp_all add: then_append_def)



lemma replace_refs_plain:
  "CHR ''{'' \<notin> set xs \<Longrightarrow> replace_refs f (xs @ ys) = then_append (Inr xs) (replace_refs f ys)"
proof (induction xs)
  case Nil
  show ?case by simp
next
  case (Cons x xs)
  then have "replace_refs f ((x # xs) @ ys)
      = then_append (Inr [x]) (then_append (Inr xs) (replace_refs f ys))"
    by auto
  also have "\<dots> = then_append (Inr (x # xs)) (replace_refs f ys)"
    by (simp add: then_append_assoc [symmetric])
  finally show ?case .
qed

lemma replace_refs_before_brace:
  "replace_refs f (pre @ CHR ''{'' # t)
     = then_append (replace_refs f pre) (replace_refs f (CHR ''{'' # t))"
proof (induction pre rule: length_induct)
  case (1 pre)
  show ?case
  proof (cases pre)
    case Nil
    then show ?thesis by simp
  next
    case (Cons c cs)
    have shorter: "replace_refs f (cs @ CHR ''{'' # t)
        = then_append (replace_refs f cs) (replace_refs f (CHR ''{'' # t))"
      using 1 Cons by simp
    show ?thesis
    proof (cases "c = CHR ''{''")
      case False
      with Cons shorter show ?thesis by (simp add: then_append_assoc)
    next
      case True
      show ?thesis
      proof (cases "match_ref cs")
        case None
        with True Cons shorter show ?thesis by (simp add: match_ref_extend then_append_assoc)
      next
        case (Some m)
        obtain s p rest where m: "m = (s, p, rest)" by (cases m)
        from Some m have "length rest \<le> length cs" by (simp add: match_ref_length)
        with 1 Cons
        have "replace_refs f (rest @ CHR ''{'' # t)
            = then_append (replace_refs f rest) (replace_refs f (CHR ''{'' # t))"
          by simp
        with True Some m Cons show ?thesis by (simp add: match_ref_extend then_append_assoc)
      qed
    qed
  qed
qed

lemma match_ref_at_reference:
  assumes "brace_free s" "brace_free p"
  shows "match_ref (s @ ''.'' @ p @ ''.host}'' @ post)
           = (if is_name s \<and> is_name p then Some (s, p, post) else None)"
proof (cases "is_name s \<and> is_name p")
  case True
  then show ?thesis using match_ref_complete [of s p post] by simp
next
  case False
  have "match_ref (s @ ''.'' @ p @ ''.host}'' @ post) = None"
  proof (rule ccontr)
    assume "match_ref (s @ ''.'' @ p @ ''.host}'' @ post) \<noteq> None"
    then obtain a b rest where m: "match_ref (s @ ''.'' @ p @ ''.host}'' @ post) = Some (a, b, rest)"
      by auto
    from match_ref_sound [OF m]
    have eq: "s @ ''.'' @ p @ ''.host}'' @ post = a @ ''.'' @ b @ ''.host}'' @ rest"
      and ab: "is_name a" "is_name b" by simp_all
    let ?close = "\<lambda>c. c \<noteq> CHR ''}''"
    have "takeWhile ?close ((s @ ''.'' @ p @ ''.host'') @ CHR ''}'' # post) = s @ ''.'' @ p @ ''.host''"
      using assms by (subst takeWhile_tail) (auto simp: brace_free_def)
    moreover have "takeWhile ?close ((a @ ''.'' @ b @ ''.host'') @ CHR ''}'' # rest) = a @ ''.'' @ b @ ''.host''"
      using is_name_no_special(2) [OF ab(1)] is_name_no_special(2) [OF ab(2)]
      by (subst takeWhile_tail) auto
    ultimately have "s @ ''.'' @ p @ ''.host'' = a @ ''.'' @ b @ ''.host''"
      using eq by simp
    then have "a @ CHR ''.'' # b = s @ CHR ''.'' # p" by simp
    with is_name_no_special(3) [OF ab(1)] is_name_no_special(3) [OF ab(2)]
    have "a = s \<and> b = p" by (simp add: append_Cons_eq_iff)
    with ab False show False by simp
  qed
  with False show ?thesis by simp
qed

lemma replace_refs_reference:
  assumes "brace_free s" "brace_free p"
  shows "replace_refs f (pre @ ref_text s p @ post)
           = then_append (replace_refs f pre)
               (then_append (if is_name s \<and> is_name p then f (ref_text s p) s p
                             else Inr (ref_text s p))
                  (replace_refs f post))"
proof -
  have "replace_refs f (pre @ ref_text s p @ post)
          = then_append (replace_refs f pre)
              (replace_refs f (CHR ''{'' # s @ ''.'' @ p @ ''.host}'' @ post))"
    using replace_refs_before_brace [of f pre "s @ ''.'' @ p @ ''.host}'' @ post"]
    by (simp add: ref_text_def)
  moreover have "replace_refs f (CHR ''{'' # s @ ''.'' @ p @ ''.host}'' @ post)
          = then_append (if is_name s \<and> is_name p then f (ref_text s p) s p
                         else Inr (ref_text s p))
              (replace_refs f post)"
  proof (cases "is_name s \<and> is_name p")
    case True
    then show ?thesis
      using match_ref_at_reference [OF assms, of post] by (simp add: ref_text_def)
  next
    case False
    have "CHR ''{'' \<notin> set (s @ ''.'' @ p @ ''.host}'')"
      using assms by (auto simp: brace_free_def)
    from replace_refs_plain [OF this, of f post]
    have "replace_refs f (s @ ''.'' @ p @ ''.host}'' @ post)
        = then_append (Inr (s @ ''.'' @ p @ ''.host}'')) (replace_refs f post)"
      by simp
    moreover from False have "match_ref (s @ ''.'' @ p @ ''.host}'' @ post) = None"
      by (simp only: match_ref_at_reference [OF assms] if_False)
    moreover have "then_append (Inr ''{'') (then_append (Inr (s @ ''.'' @ p @ ''.host}'')) R)
        = then_append (Inr (ref_text s p)) R" for R
      by (simp add: then_append_assoc [symmetric] ref_text_def)
    ultimately show ?thesis
      using False by auto
  qed
  ultimately show ?thesis by simp
qed





lemmas compose_eval =
  resolveEnvValue_def resolveRef_def findService_def match_ref_def is_word_char_def ref_text_def
  is_name_def brace_free_def numberToString_def string_of_nat.simps digit_char_def
  number_eval example_config_def api_service_def core_api_service_def
  web_service_def brace_service_def portless_config_def db_service_def app_service_def

text \<open>
  A reference \<^verbatim>\<open>{svcName.portName.host}\<close> whose names hold no brace, to a service
  that is not in the catalog, or to a port that the service's \<^verbatim>\<open>ports\<close> table does
  not have, stays as it is wherever it stands in a value; the text around it is
  resolved on its own.
\<close>

lemma resolveEnvValue_keeps_unresolvable:
  assumes "brace_free svcName" and "brace_free portName"
    and "case findService config svcName of
           None \<Rightarrow> True
         | Some targetSvc \<Rightarrow> (\<exists>ports. svc_ports targetSvc = Some ports \<and> map_of ports portName = None)"
  shows "resolveEnvValue config slot (pre @ ref_text svcName portName @ post)
           = then_append (resolveEnvValue config slot pre)
               (then_append (Inr (ref_text svcName portName)) (resolveEnvValue config slot post))"
proof -
  have "resolveRef config slot (ref_text svcName portName) svcName portName
          = Inr (ref_text svcName portName)"
    using assms(3) by (auto simp: resolveRef_def split: option.splits)
  with replace_refs_reference [OF assms(1,2)] show ?thesis
    by (simp add: resolveEnvValue_def)
qed


section \<open>Properties of the generated document\<close>



















lemmas generate_eval =
  generateCompose_def composeService_def serviceEnvironment_def serviceVolumes_def
  composeHealthcheck_def mainPort_def probe_def qualifiedName_def truthy_def
  or_default_def or_default_num_def generated_env_def obj_set_def array_index_def
  Let_def example_options_def portless_options_def




text \<open>
  Claim C9: a reference that cannot be resolved (no such service, or the service
  does not declare the port) is left as it is and raises no error. The code does
  otherwise for a service that has no \<^verbatim>\<open>ports\<close> table. The service \<^verbatim>\<open>db\<close> is in the
  catalog and declares no port at all; a variable of the service \<^verbatim>\<open>app\<close> refers to
  the port \<^verbatim>\<open>main\<close> of \<^verbatim>\<open>db\<close>. The generator returns no document: it throws the
  \<^verbatim>\<open>TypeError\<close>.
\<close>

theorem generateCompose_throws_on_service_without_ports:
  "services portless_config = [db_service, app_service]
   \<and> findService portless_config ''db'' = Some db_service
   \<and> svc_ports db_service = None
   \<and> svc_env app_service = Some [(''DB_URL'', ''postgres://localhost:{db.main.host}/app'')]
   \<and> resolveEnvValue portless_config 1 ''postgres://localhost:{db.main.host}/app'' = Inl TypeError
   \<and> generateCompose portless_options = Inl TypeError"
  by (simp add: generate_eval compose_eval)







section \<open>Properties of the lifecycle operations\<close>

lemmas lifecycle_eval =
  createWorktree_def removeWorktree_def cleanupAll_def gitRemoveWorktree_def gitCreateWorktree_def
  isUnder_def normalizePath_def toLowerCase_char_def startsWith_def getWorktreeName_def
  a_config_def no_force_def example_world_def example_config_def
  api_service_def core_api_service_def web_service_def brace_service_def

text \<open>
  When every service has a \<^verbatim>\<open>ports\<close> table, the target path exists and force is not
  set, \<^verbatim>\<open>createWorktree\<close> fails and the name has no entry in the registry afterwards,
  whether \<^verbatim>\<open>assignSlot\<close> found the slot or assigned it.
\<close>

lemma createWorktree_already_exists:
  assumes "wt_worktreePath config \<in> paths w" and "\<not> create_force options"
    and "list_all (\<lambda>service. svc_ports service \<noteq> None) (services (wt_monorepoConfig config))"
    and "fst (assignSlot w (wt_projectRoot config) (project_worktree_dir (wt_monorepoConfig config))
            (wt_name config) (ports_max_worktrees (wt_monorepoConfig config))) = Inr slot"
  shows "fst (createWorktree w config options) = Inl (AlreadyExists (wt_worktreePath config))
       \<and> map_of (loadSlots (snd (createWorktree w config options)) (wt_projectRoot config)
            (project_worktree_dir (wt_monorepoConfig config))) (wt_name config) = None"
proof -
  let ?r = "wt_projectRoot config" and ?d = "project_worktree_dir (wt_monorepoConfig config)"
  let ?mx = "ports_max_worktrees (wt_monorepoConfig config)"
  obtain w1 where a: "assignSlot w ?r ?d (wt_name config) ?mx = (Inr slot, w1)"
    using assms(4) by (cases "assignSlot w ?r ?d (wt_name config) ?mx") simp
  have "paths w \<subseteq> paths w1"
    using a by (auto simp: assignSlot_def saveSlots_def Let_def split: option.splits if_splits)
  with assms(1) have "wt_worktreePath config \<in> paths w1" by blast
  with assms(2,3) a show ?thesis
    by (simp add: createWorktree_def Let_def releaseSlot_def delete_conv')
qed

text \<open>
  When the name had no entry before the call (and is no member of
  \<^verbatim>\<open>Object.prototype\<close>), the release puts the registry back as it was.
\<close>

lemma createWorktree_already_exists_fresh:
  assumes "wt_worktreePath config \<in> paths w" and "\<not> create_force options"
    and "list_all (\<lambda>service. svc_ports service \<noteq> None) (services (wt_monorepoConfig config))"
    and "getSlot w (wt_projectRoot config) (project_worktree_dir (wt_monorepoConfig config))
            (wt_name config) = None"
    and "fst (assignSlot w (wt_projectRoot config) (project_worktree_dir (wt_monorepoConfig config))
            (wt_name config) (ports_max_worktrees (wt_monorepoConfig config))) = Inr slot"
  shows "loadSlots (snd (createWorktree w config options)) (wt_projectRoot config)
            (project_worktree_dir (wt_monorepoConfig config))
         = loadSlots w (wt_projectRoot config) (project_worktree_dir (wt_monorepoConfig config))"
proof -
  let ?r = "wt_projectRoot config" and ?d = "project_worktree_dir (wt_monorepoConfig config)"
  let ?mx = "ports_max_worktrees (wt_monorepoConfig config)"
  obtain w1 where a: "assignSlot w ?r ?d (wt_name config) ?mx = (Inr slot, w1)"
    using assms(5) by (cases "assignSlot w ?r ?d (wt_name config) ?mx") simp
  from assms(4) have fresh: "wt_name config \<notin> fst ` set (loadSlots w ?r ?d)"
    by (auto simp: getSlot_def getProperty_def map_of_eq_None_iff split: option.splits if_splits)
  from a assms(4) obtain i
    where w1: "loadSlots w1 ?r ?d = obj_set (wt_name config) i (loadSlots w ?r ?d)"
    by (auto simp: assignSlot_def getSlot_def Let_def split: option.splits)
  have "paths w \<subseteq> paths w1"
    using a by (auto simp: assignSlot_def saveSlots_def Let_def split: option.splits if_splits)
  with assms(1) have "wt_worktreePath config \<in> paths w1" by blast
  with assms(2,3) a w1 fresh show ?thesis
    by (simp add: createWorktree_def Let_def releaseSlot_def delete_obj_set_fresh)
qed

text \<open>
  Claim C3: when \<^verbatim>\<open>createWorktree\<close> fails because the path exists, a slot the name held
  before the call is kept, and only a slot assigned in the call is released. The code
  does otherwise. The worktree \<^verbatim>\<open>a\<close> exists and holds slot 1 in the registry; creating
  \<^verbatim>\<open>a\<close> again without force fails because the path exists; afterwards the directory
  is still there and the registry has no slot for \<^verbatim>\<open>a\<close>.
\<close>

theorem createWorktree_existing_name_loses_slot:
  "getSlot example_world ''/p'' ''.worktrees'' ''a'' = Some (Number 1)
   \<and> fst (createWorktree example_world a_config no_force) = Inl (AlreadyExists ''/p/.worktrees/a'')
   \<and> getSlot (snd (createWorktree example_world a_config no_force)) ''/p'' ''.worktrees'' ''a'' = None
   \<and> ''/p/.worktrees/a'' \<in> paths (snd (createWorktree example_world a_config no_force))"
  by (simp add: lifecycle_eval slot_eval)

text \<open>
  The count \<^verbatim>\<open>cleanupAll\<close> prints is the number of worktrees under the storage
  directory it called \<^verbatim>\<open>removeWorktree\<close> for, whatever the calls returned.
\<close>

lemma cleanupLoop_count:
  "fst (cleanupLoop projectRoot config force removeVolumes wts w removed)
     = removed + int (length (filter (\<lambda>wt. normalizePath wt \<noteq> normalizePath projectRoot
           \<and> startsWith (normalizePath wt)
                 (normalizePath (join [projectRoot, project_worktree_dir config]))) wts))"
proof (induction wts arbitrary: w removed)
  case Nil
  show ?case by simp
next
  case (Cons wt wts)
  show ?case by (simp add: Let_def Cons.IH split: prod.splits)
qed

text \<open>
  Claim C7: \<^verbatim>\<open>cleanupAll\<close> goes on after a removal that fails, and the count it reports
  is the number of environments removed. The code goes on, and counts the calls. Git
  lists the main checkout and the worktrees \<^verbatim>\<open>a\<close> and \<^verbatim>\<open>c\<close>; \<^verbatim>\<open>a\<close> has uncommitted
  changes, and force is not set. Removing \<^verbatim>\<open>a\<close> fails, and the loop goes on to
  remove \<^verbatim>\<open>c\<close>: afterwards \<^verbatim>\<open>a\<close> is still there and \<^verbatim>\<open>c\<close> is gone. One worktree
  was removed, and the count is 2.
\<close>

theorem cleanupAll_counts_failed_removal:
  "fst (removeWorktree example_world ''/p'' example_config ''a''
          \<lparr>rm_deleteBranch = False, rm_deleteRemote = False,
           rm_removeVolumes = False, rm_force = False\<rparr>)
     = Inl DirtyWorkingTree
   \<and> fst (cleanupAll example_world ''/p'' example_config False False) = 2
   \<and> ''/p/.worktrees/a'' \<in> paths (snd (cleanupAll example_world ''/p'' example_config False False))
   \<and> ''/p/.worktrees/c'' \<notin> paths (snd (cleanupAll example_world ''/p'' example_config False False))"
  by (simp add: lifecycle_eval slot_eval)

end
